theory Spec2Isabelle
  imports Main "HOL-Library.Char_ord" "HOL-Library.List_Lexorder" "HOL-Library.Sublist"
begin

section \<open>JSON values and the JavaScript host\<close>

text \<open>
  The class \<open>JSONProcessor\<close> works on the values that \<open>JSON.parse\<close> returns. A value
  is \<open>null\<close>, a boolean, a number, a string, an array, or an object whose own properties
  are listed in the order in which JavaScript enumerates them. \<open>undefined\<close> is not a JSON
  value: a read that may yield it has type \<open>json option\<close>, with \<open>None\<close> for \<open>undefined\<close>.

  Strings are lists of \<open>char\<close>; one \<open>char\<close> stands for one code unit of the JavaScript
  string (the model has the code units below 256), so \<open>length\<close> is \<open>.length\<close> and the
  order on strings is the order that \<open>Array.prototype.sort\<close> uses by default.

  Numbers are kept abstract (the type variable \<open>'n\<close>): the program never computes with
  them, it only prints and compares them, and both are left to the host.
\<close>

datatype 'n json =
    JNull
  | JBool bool
  | JNum 'n
  | JStr string
  | JArr "'n json list"
  | JObj "(string \<times> 'n json) list"

text \<open>A thrown value. Everything this program throws or catches is an \<open>Error\<close> object.\<close>

datatype js_error = SyntaxError string | TypeError string | Error string

fun message :: "js_error \<Rightarrow> string" where
  "message (SyntaxError m) = m"
| "message (TypeError m) = m"
| "message (Error m) = m"

text \<open>
  A statement either completes with a value (\<open>Inr\<close>) or throws (\<open>Inl\<close>).
  \<open>and_then\<close> sequences two statements, \<open>try_catch\<close> is \<open>try { ... } catch (e) { ... }\<close>.
\<close>

definition and_then :: "js_error + 'a \<Rightarrow> ('a \<Rightarrow> js_error + 'b) \<Rightarrow> js_error + 'b" where
  "and_then m f = (case m of Inl e \<Rightarrow> Inl e | Inr x \<Rightarrow> f x)"

definition try_catch :: "js_error + 'a \<Rightarrow> (js_error \<Rightarrow> js_error + 'a) \<Rightarrow> js_error + 'a" where
  "try_catch body handler = (case body of Inl e \<Rightarrow> handler e | Inr x \<Rightarrow> Inr x)"

lemma and_then_cong [fundef_cong]:
  "m = m' \<Longrightarrow> (\<And>x. m' = Inr x \<Longrightarrow> f x = g x) \<Longrightarrow> and_then m f = and_then m' g"
  by (auto simp: and_then_def split: sum.splits)

lemma and_then_simps [simp]:
  "and_then (Inl e) f = Inl e"
  "and_then (Inr x) f = f x"
  by (simp_all add: and_then_def)

lemma try_catch_simps [simp]:
  "try_catch (Inl e) handler = handler e"
  "try_catch (Inr x) handler = Inr x"
  by (simp_all add: try_catch_def)

text \<open>
  What the program takes from the JavaScript engine and does not define itself:
  \<^item> \<open>JSON_parse\<close>: \<open>JSON.parse\<close>, which returns a value or throws;
  \<^item> \<open>number_text\<close>: the string of a number (\<open>Number::toString\<close>), and \<open>number_finite\<close>,
    since \<open>JSON.stringify\<close> prints a number that is not finite as \<open>null\<close>;
  \<^item> \<open>number_of_nat\<close>: the number of a length or of a literal such as \<open>0\<close>;
  \<^item> \<open>number_truthy\<close>: a number in a condition (false for zero);
  \<^item> \<open>number_less\<close>: \<open><\<close> on numbers;
  \<^item> \<open>string_to_number\<close>: the number a string converts to, \<open>None\<close> when it is \<open>NaN\<close>.
\<close>

record 'n host =
  JSON_parse :: "string \<Rightarrow> js_error + 'n json"
  number_text :: "'n \<Rightarrow> string"
  number_finite :: "'n \<Rightarrow> bool"
  number_of_nat :: "nat \<Rightarrow> 'n"
  number_truthy :: "'n \<Rightarrow> bool"
  number_less :: "'n \<Rightarrow> 'n \<Rightarrow> bool"
  string_to_number :: "string \<Rightarrow> 'n option"

section \<open>Strings\<close>

definition newline :: char where
  "newline = CHR 0x0A"

definition is_digit :: "char \<Rightarrow> bool" where
  "is_digit c = (CHR ''0'' \<le> c \<and> c \<le> CHR ''9'')"

text \<open>
  \<open>parseInt\<close> on a string of decimal digits, the only strings the program gives it (each
  is the capture of a \<open>\d+\<close>). The model computes the exact natural number; JavaScript
  rounds it to a double, which changes nothing here: the number is only compared with the
  length of a string or an array and used as an index below that length.
\<close>

definition parseInt :: "string \<Rightarrow> nat" where
  "parseInt ds = foldl (\<lambda>acc c. 10 * acc + (of_char c - 48)) 0 ds"

definition digit_char :: "nat \<Rightarrow> char" where
  "digit_char d = (''0123456789'') ! (d mod 10)"

text \<open>The decimal string of a natural number: an array index as a property key.\<close>

fun show_nat :: "nat \<Rightarrow> string" where
  "show_nat n =
     (if n < 10 then [digit_char n]
      else show_nat (n div 10) @ [digit_char (n mod 10)])"

declare show_nat.simps [simp del]

text \<open>\<open>s.split(d)\<close> for a one-character separator.\<close>

fun split_on :: "char \<Rightarrow> string \<Rightarrow> string list" where
  "split_on d [] = [[]]"
| "split_on d (c # cs) =
     (if c = d then [] # split_on d cs
      else (case split_on d cs of
              [] \<Rightarrow> [[c]]
            | p # ps \<Rightarrow> (c # p) # ps))"

text \<open>\<open>xs.join(sep)\<close> on strings.\<close>

fun join :: "string \<Rightarrow> string list \<Rightarrow> string" where
  "join sep [] = []"
| "join sep [x] = x"
| "join sep (x # y # ys) = x @ sep @ join sep (y # ys)"

text \<open>\<open>s.includes(needle)\<close>.\<close>

fun string_includes :: "string \<Rightarrow> string \<Rightarrow> bool" where
  "string_includes [] needle = (needle = [])"
| "string_includes (c # cs) needle = (prefix needle (c # cs) \<or> string_includes cs needle)"

section \<open>JSON.stringify\<close>

text \<open>
  \<open>JSON.stringify(value, null, space)\<close> of ECMAScript on JSON values: \<open>QuoteJSONString\<close>,
  \<open>SerializeJSONProperty\<close> with \<open>SerializeJSONArray\<close> and \<open>SerializeJSONObject\<close>; \<open>gap\<close> is
  \<open>space\<close> blanks (at most ten), \<open>ind\<close> the current indentation.
\<close>

definition hex_digit :: "nat \<Rightarrow> char" where
  "hex_digit d = (''0123456789abcdef'') ! (d mod 16)"

fun quote_char :: "char \<Rightarrow> string" where
  "quote_char c =
     (if c = CHR 0x08 then [CHR 0x5C, CHR ''b'']
      else if c = CHR 0x09 then [CHR 0x5C, CHR ''t'']
      else if c = CHR 0x0A then [CHR 0x5C, CHR ''n'']
      else if c = CHR 0x0C then [CHR 0x5C, CHR ''f'']
      else if c = CHR 0x0D then [CHR 0x5C, CHR ''r'']
      else if c = CHR 0x22 then [CHR 0x5C, CHR 0x22]
      else if c = CHR 0x5C then [CHR 0x5C, CHR 0x5C]
      else if (of_char c :: nat) < 32
        then [CHR 0x5C, CHR ''u'', CHR ''0'', CHR ''0'',
              hex_digit (of_char c div 16), hex_digit (of_char c mod 16)]
      else [c])"

definition QuoteJSONString :: "string \<Rightarrow> string" where
  "QuoteJSONString s = [CHR 0x22] @ concat (map quote_char s) @ [CHR 0x22]"

definition wrap_members :: "string \<Rightarrow> string \<Rightarrow> string \<Rightarrow> string \<Rightarrow> string list \<Rightarrow> string" where
  "wrap_members opn cls gap stepback partial =
     (if partial = [] then opn @ cls
      else if gap = [] then opn @ join '','' partial @ cls
      else opn @ [newline] @ (stepback @ gap)
             @ join ('','' @ [newline] @ (stepback @ gap)) partial
             @ [newline] @ stepback @ cls)"

fun SerializeJSONProperty :: "'n host \<Rightarrow> string \<Rightarrow> string \<Rightarrow> 'n json \<Rightarrow> string" where
  "SerializeJSONProperty h gap ind JNull = ''null''"
| "SerializeJSONProperty h gap ind (JBool b) = (if b then ''true'' else ''false'')"
| "SerializeJSONProperty h gap ind (JNum n) =
     (if number_finite h n then number_text h n else ''null'')"
| "SerializeJSONProperty h gap ind (JStr s) = QuoteJSONString s"
| "SerializeJSONProperty h gap ind (JArr xs) =
     wrap_members ''['' '']'' gap ind
       (map (\<lambda>x. SerializeJSONProperty h gap (ind @ gap) x) xs)"
| "SerializeJSONProperty h gap ind (JObj kvs) =
     wrap_members ''{'' ''}'' gap ind
       (map (\<lambda>(k, v). QuoteJSONString k @ '':'' @ (if gap = [] then [] else '' '')
                @ SerializeJSONProperty h gap (ind @ gap) v) kvs)"

definition JSON_stringify :: "'n host \<Rightarrow> 'n json \<Rightarrow> int \<Rightarrow> string" where
  "JSON_stringify h v space =
     SerializeJSONProperty h (replicate (nat (min 10 space)) CHR '' '') [] v"

text \<open>\<open>JSON.stringify(v)\<close> where \<open>v\<close> may be \<open>undefined\<close>: the result is then \<open>undefined\<close>.\<close>

definition stringify :: "'n host \<Rightarrow> 'n json option \<Rightarrow> string option" where
  "stringify h v = map_option (\<lambda>x. JSON_stringify h x 0) v"

text \<open>A value of type string-or-undefined inside a template literal.\<close>

definition template :: "string option \<Rightarrow> string" where
  "template s = (case s of None \<Rightarrow> ''undefined'' | Some t \<Rightarrow> t)"

section \<open>Objects: keys and property reads\<close>

text \<open>
  A property key that is a canonical numeric string (\<open>0\<close>, or digits with no leading
  zero) names an element of an array or a character of a string. Below \<open>2^32 - 1\<close> it is
  an array index: an object enumerates such keys first, in ascending numeric order, and
  the other keys after them in the order of their creation. \<open>own_set\<close> is the assignment
  \<open>o[k] = v\<close> on the list of own properties.
\<close>

definition canonical_numeric :: "string \<Rightarrow> bool" where
  "canonical_numeric k = (k \<noteq> [] \<and> list_all is_digit k \<and> (k = ''0'' \<or> hd k \<noteq> CHR ''0''))"

definition is_array_index :: "string \<Rightarrow> bool" where
  "is_array_index k = (canonical_numeric k \<and> parseInt k < 4294967295)"

fun own_set :: "(string \<times> 'v) list \<Rightarrow> string \<Rightarrow> 'v \<Rightarrow> (string \<times> 'v) list" where
  "own_set [] k v = [(k, v)]"
| "own_set ((k', v') # kvs) k v =
     (if k' = k then (k, v) # kvs
      else if is_array_index k \<and> k \<notin> fst ` set kvs
              \<and> (\<not> is_array_index k' \<or> parseInt k < parseInt k')
        then (k, v) # (k', v') # kvs
      else (k', v') # own_set kvs k v)"

fun Object_keys :: "'n json \<Rightarrow> string list" where
  "Object_keys (JObj kvs) = map fst kvs"
| "Object_keys (JArr xs) = map show_nat [0..<length xs]"
| "Object_keys (JStr s) = map show_nat [0..<length s]"
| "Object_keys v = []"

fun Object_entries :: "'n json \<Rightarrow> (string \<times> 'n json) list" where
  "Object_entries (JObj kvs) = kvs"
| "Object_entries (JArr xs) = zip (map show_nat [0..<length xs]) xs"
| "Object_entries (JStr s) = zip (map show_nat [0..<length s]) (map (\<lambda>c. JStr [c]) s)"
| "Object_entries v = []"

text \<open>
  \<open>v[key]\<close> for a value \<open>v\<close> that is not \<open>null\<close>: the own properties of the value, the
  elements and the \<open>length\<close> of an array, the characters and the \<open>length\<close> of a string.
  Keys that name a member of a built-in prototype (\<open>constructor\<close>, \<open>toString\<close>,
  \<open>__proto__\<close>, ...) are outside the model, in a read as in an assignment or in the test
  \<open>key in data\<close>: every other key that is not an own property reads as \<open>undefined\<close>.
\<close>

fun get_property :: "'n host \<Rightarrow> 'n json \<Rightarrow> string \<Rightarrow> 'n json option" where
  "get_property h (JObj kvs) key = map_of kvs key"
| "get_property h (JArr xs) key =
     (if key = ''length'' then Some (JNum (number_of_nat h (length xs)))
      else if canonical_numeric key \<and> parseInt key < length xs then Some (xs ! parseInt key)
      else None)"
| "get_property h (JStr s) key =
     (if key = ''length'' then Some (JNum (number_of_nat h (length s)))
      else if canonical_numeric key \<and> parseInt key < length s then Some (JStr [s ! parseInt key])
      else None)"
| "get_property h v key = None"

text \<open>\<open>v?.[key]\<close>: \<open>undefined\<close> when \<open>v\<close> is \<open>null\<close> or \<open>undefined\<close>.\<close>

fun optional_get :: "'n host \<Rightarrow> 'n json option \<Rightarrow> string \<Rightarrow> 'n json option" where
  "optional_get h None key = None"
| "optional_get h (Some JNull) key = None"
| "optional_get h (Some v) key = get_property h v key"

text \<open>\<open>v.name\<close>, which throws a \<open>TypeError\<close> when \<open>v\<close> is \<open>null\<close>.\<close>

definition read_property :: "'n host \<Rightarrow> 'n json \<Rightarrow> string \<Rightarrow> js_error + 'n json option" where
  "read_property h v name =
     (if v = JNull then Inl (TypeError ''Cannot read properties of null'')
      else Inr (get_property h v name))"

text \<open>\<open>typeof v === 'object'\<close> (true of \<open>null\<close>) and \<open>Array.isArray(v)\<close>.\<close>

fun typeof_object :: "'n json option \<Rightarrow> bool" where
  "typeof_object (Some JNull) = True"
| "typeof_object (Some (JArr xs)) = True"
| "typeof_object (Some (JObj kvs)) = True"
| "typeof_object v = False"

fun isArray :: "'n json option \<Rightarrow> bool" where
  "isArray (Some (JArr xs)) = True"
| "isArray v = False"

text \<open>A value in a condition.\<close>

fun truthy :: "'n host \<Rightarrow> 'n json option \<Rightarrow> bool" where
  "truthy h None = False"
| "truthy h (Some JNull) = False"
| "truthy h (Some (JBool b)) = b"
| "truthy h (Some (JNum n)) = number_truthy h n"
| "truthy h (Some (JStr s)) = (s \<noteq> [])"
| "truthy h (Some v) = True"

text \<open>\<open>xs.map(f)\<close> and \<open>xs.forEach(f)\<close> with a callback that may throw; \<open>forEach\<close> threads
  the variables that the callback updates.\<close>

fun array_map :: "('a \<Rightarrow> js_error + 'b) \<Rightarrow> 'a list \<Rightarrow> js_error + 'b list" where
  "array_map f [] = Inr []"
| "array_map f (x # xs) =
     and_then (f x) (\<lambda>y. and_then (array_map f xs) (\<lambda>ys. Inr (y # ys)))"

fun forEach :: "('s \<Rightarrow> 'a \<Rightarrow> js_error + 's) \<Rightarrow> 'a list \<Rightarrow> 's \<Rightarrow> js_error + 's" where
  "forEach f [] s = Inr s"
| "forEach f (x # xs) s = and_then (f s x) (\<lambda>s'. forEach f xs s')"

lemma array_map_cong [fundef_cong]:
  "xs = ys \<Longrightarrow> (\<And>x. x \<in> set ys \<Longrightarrow> f x = g x) \<Longrightarrow> array_map f xs = array_map g ys"
  by (induction ys arbitrary: xs) auto

lemma forEach_cong [fundef_cong]:
  "xs = ys \<Longrightarrow> s = t \<Longrightarrow> (\<And>x a. x \<in> set ys \<Longrightarrow> f a x = g a x)
     \<Longrightarrow> forEach f xs s = forEach g ys t"
  by (induction ys arbitrary: xs s t) (auto simp: and_then_def split: sum.splits)

lemma size_map_of_field [termination_simp]:
  "map_of kvs k = Some v \<Longrightarrow> size v < Suc (size_list (\<lambda>x. Suc (size (snd x))) kvs)"
  by (induction kvs) (auto split: if_splits)

lemma size_map_of_JObj: "map_of kvs k = Some v \<Longrightarrow> size v < size (JObj kvs)"
  by (induction kvs) (auto split: if_splits)

lemma size_nth_elem: "i < length xs \<Longrightarrow> size (xs ! i) < Suc (size_list size xs)"
proof (induction xs arbitrary: i)
  case Nil
  then show ?case by simp
next
  case (Cons a xs)
  then show ?case by (cases i) fastforce+
qed


section \<open>validate\<close>

record JSONValidationResult =
  valid :: bool
  error :: "string option"
  line :: "nat option"
  column :: "nat option"

definition after_prefix :: "string \<Rightarrow> string \<Rightarrow> string option" where
  "after_prefix p s = (if prefix p s then Some (drop (length p) s) else None)"

text \<open>
  \<open>message.match(/position (\d+)/)\<close>: the leftmost place where \<open>position\<close>, a blank and at
  least one digit stand; the capture is the longest run of digits there.
\<close>

fun match_position :: "string \<Rightarrow> string option" where
  "match_position [] = None"
| "match_position (c # cs) =
     (case after_prefix ''position '' (c # cs) of
        None \<Rightarrow> match_position cs
      | Some rest \<Rightarrow>
          (if takeWhile is_digit rest = [] then match_position cs
           else Some (takeWhile is_digit rest)))"

text \<open>
  \<open>validate\<close>. The catch clause reads \<open>error.message\<close> (what \<open>JSON.parse\<close> throws is an
  \<open>Error\<close>); \<open>jsonString.substring(0, position)\<close> is \<open>take position jsonString\<close>.
\<close>

definition validate :: "'n host \<Rightarrow> string \<Rightarrow> js_error + JSONValidationResult" where
  "validate h jsonString =
     try_catch
       (and_then (JSON_parse h jsonString)
          (\<lambda>parsed. Inr \<lparr>valid = True, error = None, line = None, column = None\<rparr>))
       (\<lambda>err.
          let msg = message err in
          (case match_position msg of
             Some digits \<Rightarrow>
               (let position = parseInt digits;
                    lines = split_on newline (take position jsonString)
                in Inr \<lparr>valid = False, error = Some msg,
                        line = Some (length lines),
                        column = Some (length (last lines) + 1)\<rparr>)
           | None \<Rightarrow> Inr \<lparr>valid = False, error = Some msg, line = None, column = None\<rparr>))"

section \<open>format, minify and process\<close>

record JSONProcessingOptions =
  opt_indent :: int
  opt_sortKeys :: bool
  opt_removeWhitespace :: bool

text \<open>
  \<open>sortKeys\<close>. The first argument says whether \<open>this\<close> is bound to the class. It is in the
  call \<open>this.sortKeys(parsed)\<close> of \<open>format\<close> and in the call \<open>this.sortKeys(obj[key])\<close> of the
  arrow function, which takes \<open>this\<close> from the call of \<open>sortKeys\<close> around it. It is not in
  \<open>obj.map(this.sortKeys)\<close>: \<open>map\<close> calls the method as a plain function, where \<open>this\<close> is
  \<open>undefined\<close> (class code is strict), and there the expression \<open>this.sortKeys\<close> throws a
  \<open>TypeError\<close>.
\<close>

fun sortKeys :: "bool \<Rightarrow> 'n json \<Rightarrow> js_error + 'n json" where
  "sortKeys this (JArr xs) =
     (if this
      then and_then (array_map (\<lambda>x. sortKeys False x) xs) (\<lambda>ys. Inr (JArr ys))
      else Inl (TypeError ''Cannot read properties of undefined''))"
| "sortKeys this (JObj kvs) =
     and_then
       (forEach
          (\<lambda>acc key.
             if this
             then (case map_of kvs key of
                     None \<Rightarrow> Inr acc
                   | Some v \<Rightarrow> and_then (sortKeys True v) (\<lambda>v'. Inr (own_set acc key v')))
             else Inl (TypeError ''Cannot read properties of undefined''))
          (sort (map fst kvs)) [])
       (\<lambda>acc. Inr (JObj acc))"
| "sortKeys this v = Inr v"

definition format :: "'n host \<Rightarrow> string \<Rightarrow> JSONProcessingOptions \<Rightarrow> js_error + string" where
  "format h jsonString options =
     try_catch
       (and_then (JSON_parse h jsonString)
          (\<lambda>parsed.
             and_then (if opt_sortKeys options then sortKeys True parsed else Inr parsed)
               (\<lambda>parsed. Inr (JSON_stringify h parsed (opt_indent options)))))
       (\<lambda>err. Inr jsonString)"

definition minify :: "'n host \<Rightarrow> string \<Rightarrow> js_error + string" where
  "minify h jsonString =
     try_catch
       (and_then (JSON_parse h jsonString) (\<lambda>parsed. Inr (JSON_stringify h parsed 0)))
       (\<lambda>err. Inr jsonString)"

record JSONStats =
  stats_size :: nat
  stats_formattedSize :: nat
  stats_objects :: nat
  stats_arrays :: nat
  stats_primitives :: nat

text \<open>\<open>count\<close> of \<open>getStats\<close>; the three counters are its state.\<close>

fun count :: "'n json \<Rightarrow> nat \<times> nat \<times> nat \<Rightarrow> nat \<times> nat \<times> nat" where
  "count (JArr xs) (objects, arrays, primitives) =
     fold count xs (objects, arrays + 1, primitives)"
| "count (JObj kvs) (objects, arrays, primitives) =
     fold count (map snd kvs) (objects + 1, arrays, primitives)"
| "count v (objects, arrays, primitives) = (objects, arrays, primitives + 1)"

definition getStats :: "'n json \<Rightarrow> nat \<times> nat \<times> nat" where
  "getStats obj = count obj (0, 0, 0)"

record JSONProcessingResult =
  formatted :: string
  minified :: string
  validation :: JSONValidationResult
  stats :: JSONStats

definition process ::
  "'n host \<Rightarrow> string \<Rightarrow> JSONProcessingOptions \<Rightarrow> js_error + JSONProcessingResult" where
  "process h jsonString options =
     and_then (validate h jsonString)
       (\<lambda>validation.
          if \<not> valid validation
          then Inr \<lparr>formatted = jsonString, minified = jsonString, validation = validation,
                    stats = \<lparr>stats_size = length jsonString,
                              stats_formattedSize = length jsonString,
                              stats_objects = 0, stats_arrays = 0, stats_primitives = 0\<rparr>\<rparr>
          else
            and_then (JSON_parse h jsonString)
              (\<lambda>parsed.
                 and_then (if opt_removeWhitespace options then minify h jsonString
                           else format h jsonString options)
                   (\<lambda>formatted.
                      and_then (minify h jsonString)
                        (\<lambda>minified.
                           (case getStats parsed of
                              (objects, arrays, primitives) \<Rightarrow>
                                Inr \<lparr>formatted = formatted, minified = minified,
                                     validation = validation,
                                     stats = \<lparr>stats_size = length jsonString,
                                               stats_formattedSize = length formatted,
                                               stats_objects = objects, stats_arrays = arrays,
                                               stats_primitives = primitives\<rparr>\<rparr>)))))"

text \<open>
  The copy of the class in \<open>json-tools/src/utils/jsonProcessor.ts\<close> has the same
  \<open>validate\<close>, \<open>minify\<close>, \<open>sortKeys\<close> and \<open>getStats\<close>. Its \<open>format\<close> declares \<open>parsed\<close> with
  \<open>const\<close> and assigns to it when \<open>sortKeys\<close> is set: after the call of \<open>sortKeys\<close> the
  assignment throws a \<open>TypeError\<close>, which the catch clause turns into the text itself.
  Its \<open>process\<close> always calls \<open>format\<close>.
\<close>

definition format_utils :: "'n host \<Rightarrow> string \<Rightarrow> JSONProcessingOptions \<Rightarrow> js_error + string" where
  "format_utils h jsonString options =
     try_catch
       (and_then (JSON_parse h jsonString)
          (\<lambda>parsed.
             and_then (if opt_sortKeys options
                       then and_then (sortKeys True parsed)
                              (\<lambda>sorted_value. Inl (TypeError ''Assignment to constant variable.''))
                       else Inr parsed)
               (\<lambda>parsed. Inr (JSON_stringify h parsed (opt_indent options)))))
       (\<lambda>err. Inr jsonString)"

definition process_utils ::
  "'n host \<Rightarrow> string \<Rightarrow> JSONProcessingOptions \<Rightarrow> js_error + JSONProcessingResult" where
  "process_utils h jsonString options =
     and_then (validate h jsonString)
       (\<lambda>validation.
          if \<not> valid validation
          then Inr \<lparr>formatted = jsonString, minified = jsonString, validation = validation,
                    stats = \<lparr>stats_size = length jsonString,
                              stats_formattedSize = length jsonString,
                              stats_objects = 0, stats_arrays = 0, stats_primitives = 0\<rparr>\<rparr>
          else
            and_then (JSON_parse h jsonString)
              (\<lambda>parsed.
                 and_then (format_utils h jsonString options)
                   (\<lambda>formatted.
                      and_then (minify h jsonString)
                        (\<lambda>minified.
                           (case getStats parsed of
                              (objects, arrays, primitives) \<Rightarrow>
                                Inr \<lparr>formatted = formatted, minified = minified,
                                     validation = validation,
                                     stats = \<lparr>stats_size = length jsonString,
                                               stats_formattedSize = length formatted,
                                               stats_objects = objects, stats_arrays = arrays,
                                               stats_primitives = primitives\<rparr>\<rparr>)))))"

section \<open>queryJSON\<close>

text \<open>\<open>query.replace(/^\$?\./, '')\<close>: a leading dot, or a leading dollar and dot, is removed.\<close>

definition cleanQuery :: "string \<Rightarrow> string" where
  "cleanQuery query =
     (if prefix ''$.'' query then drop 2 query
      else if prefix ''.'' query then drop 1 query
      else query)"

text \<open>
  \<open>cleanQuery.match(/^(.+?)\[(\d+|\*)\]$/)\<close>. \<open>bracket_suffix\<close> matches \<open>\[(\d+|\*)\]$\<close>
  against the whole of a string; \<open>arrayMatch_from\<close> lengthens the lazy group \<open>(.+?)\<close> one
  character at a time (the dot matches no line terminator) and stops at the first length
  after which the rest is such a suffix.
\<close>

text \<open>The line terminators among the code units of the model: line feed and carriage return.\<close>

definition line_terminator :: "char \<Rightarrow> bool" where
  "line_terminator c = (c = CHR 0x0A \<or> c = CHR 0x0D)"

definition bracket_suffix :: "string \<Rightarrow> string option" where
  "bracket_suffix s =
     (case s of
        [] \<Rightarrow> None
      | c # cs \<Rightarrow>
          (if c = CHR ''['' \<and> cs \<noteq> [] \<and> last cs = CHR '']''
              \<and> (butlast cs = ''*'' \<or> (butlast cs \<noteq> [] \<and> list_all is_digit (butlast cs)))
           then Some (butlast cs) else None))"

fun arrayMatch_from :: "string \<Rightarrow> string \<Rightarrow> (string \<times> string) option" where
  "arrayMatch_from path [] = None"
| "arrayMatch_from path (c # cs) =
     (case (if path = [] then None else bracket_suffix (c # cs)) of
        Some index \<Rightarrow> Some (path, index)
      | None \<Rightarrow> (if line_terminator c then None else arrayMatch_from (path @ [c]) cs))"

definition arrayMatch :: "string \<Rightarrow> (string \<times> string) option" where
  "arrayMatch query = arrayMatch_from [] query"

text \<open>The loop of \<open>getValueAtPath\<close> over the keys of the path; \<open>current\<close> is its variable.\<close>

fun walk :: "'n host \<Rightarrow> 'n json option \<Rightarrow> string list \<Rightarrow> 'n json option" where
  "walk h current [] = current"
| "walk h current (key # keys) =
     (case current of
        None \<Rightarrow> None
      | Some JNull \<Rightarrow> None
      | Some cur \<Rightarrow>
          (if key \<noteq> [] \<and> list_all is_digit key
           then (case cur of
                   JArr xs \<Rightarrow>
                     (if parseInt key < length xs then walk h (Some (xs ! parseInt key)) keys
                      else None)
                 | _ \<Rightarrow> None)
           else walk h (get_property h cur key) keys))"

definition getValueAtPath :: "'n host \<Rightarrow> 'n json \<Rightarrow> string \<Rightarrow> 'n json option" where
  "getValueAtPath h obj path =
     (if path = [] then Some obj else walk h (Some obj) (split_on CHR ''.'' path))"

text \<open>
  \<open>evaluateJSONPath\<close>. The inner \<open>case\<close> is the block "Handle array access": it is
  \<open>Some\<close> of the returned sequence where that block returns, and \<open>None\<close> where control
  leaves it and reaches the last statement, "Handle dot notation".
\<close>

definition evaluateJSONPath :: "'n host \<Rightarrow> 'n json \<Rightarrow> string \<Rightarrow> 'n json option list" where
  "evaluateJSONPath h obj query =
     (let cleaned = cleanQuery query in
      if cleaned = [] then [Some obj]
      else
        (case (case arrayMatch cleaned of
                 Some (path, index) \<Rightarrow>
                   (case getValueAtPath h obj path of
                      Some (JArr parent) \<Rightarrow>
                        (if index = ''*'' then Some (map Some parent)
                         else (let idx = parseInt index in
                               if idx < length parent then Some [Some (parent ! idx)] else None))
                    | _ \<Rightarrow> None)
               | None \<Rightarrow> None) of
           Some results \<Rightarrow> results
         | None \<Rightarrow> [getValueAtPath h obj cleaned]))"

definition queryJSON :: "'n host \<Rightarrow> string \<Rightarrow> string \<Rightarrow> js_error + 'n json option list" where
  "queryJSON h jsonString query =
     try_catch
       (and_then (JSON_parse h jsonString) (\<lambda>parsed. Inr (evaluateJSONPath h parsed query)))
       (\<lambda>err. Inl (Error ''Invalid JSON format''))"


section \<open>compareJSON\<close>

text \<open>\<open>Object.keys(obj || {})\<close>: the keys of the empty object when \<open>obj\<close> is falsy.\<close>

definition keys_or_empty :: "'n host \<Rightarrow> 'n json option \<Rightarrow> string list" where
  "keys_or_empty h obj =
     (case obj of
        None \<Rightarrow> []
      | Some v \<Rightarrow> (if truthy h obj then Object_keys v else []))"

text \<open>
  \<open>JSON.stringify(val, null, 2).split('\n').join('\n' + spaces + '  ')\<close>; the call of
  \<open>split\<close> throws when \<open>JSON.stringify\<close> returns \<open>undefined\<close>.
\<close>

definition stringify_block :: "'n host \<Rightarrow> 'n json option \<Rightarrow> string \<Rightarrow> js_error + string" where
  "stringify_block h v spaces =
     (case v of
        None \<Rightarrow> Inl (TypeError ''Cannot read properties of undefined'')
      | Some x \<Rightarrow>
          Inr (join ([newline] @ spaces @ ''  '') (split_on newline (JSON_stringify h x 2))))"

text \<open>
  The text of one statement \<open>diff += ...\<close>: for the marks \<open>+\<close>, \<open>-\<close> and blank the line
  \<open>${spaces}<mark> "${key}": ${text}\n\<close>, and around a recursive call the lines
  \<open>${spaces}  "${key}": {\n\<close> and \<open>${spaces}  }\n\<close>.
\<close>

definition entry_line :: "string \<Rightarrow> string \<Rightarrow> string \<Rightarrow> string \<Rightarrow> string" where
  \<open>entry_line spaces mark key text = spaces @ mark @ ''"'' @ key @ ''": '' @ text @ [newline]\<close>

definition block_open :: "string \<Rightarrow> string \<Rightarrow> string" where
  \<open>block_open spaces key = spaces @ ''  "'' @ key @ ''": {'' @ [newline]\<close>

definition block_close :: "string \<Rightarrow> string" where
  "block_close spaces = spaces @ ''  }'' @ [newline]"

text \<open>
  The body of the loop \<open>for (const key of sortedKeys)\<close> of \<open>generateDiff\<close>: from the text
  \<open>acc\<close> accumulated in \<open>diff\<close> so far to the text after the key. \<open>recurse\<close> stands for the
  method itself in its two recursive calls.
\<close>

definition diff_key ::
  "'n host \<Rightarrow> ('n json option \<Rightarrow> 'n json option \<Rightarrow> string \<Rightarrow> nat \<Rightarrow> js_error + string)
     \<Rightarrow> 'n json option \<Rightarrow> 'n json option \<Rightarrow> string \<Rightarrow> nat \<Rightarrow> string \<Rightarrow> string
     \<Rightarrow> js_error + string" where
  "diff_key h recurse obj1 obj2 path indent acc key =
     (let spaces = concat (replicate indent ''  '');
          currentPath = (if path \<noteq> [] then path @ ''.'' @ key else key);
          val1 = optional_get h obj1 key;
          val2 = optional_get h obj2 key
      in
      if stringify h val1 \<noteq> stringify h val2 then
        (if val1 = None then
           (if typeof_object val2 \<and> val2 \<noteq> Some JNull \<and> \<not> isArray val2
            then and_then (stringify_block h val2 spaces)
                   (\<lambda>block. Inr (acc @ entry_line spaces ''+ '' key block))
            else Inr (acc @ entry_line spaces ''+ '' key (template (stringify h val2))))
         else if val2 = None then
           (if typeof_object val1 \<and> val1 \<noteq> Some JNull \<and> \<not> isArray val1
            then and_then (stringify_block h val1 spaces)
                   (\<lambda>block. Inr (acc @ entry_line spaces ''- '' key block))
            else Inr (acc @ entry_line spaces ''- '' key (template (stringify h val1))))
         else if typeof_object val1 \<and> typeof_object val2
                   \<and> val1 \<noteq> Some JNull \<and> val2 \<noteq> Some JNull then
           and_then (recurse val1 val2 currentPath (indent + 1))
             (\<lambda>inner. Inr (acc @ block_open spaces key @ inner @ block_close spaces))
         else
           and_then
             (if typeof_object val1 \<and> val1 \<noteq> Some JNull
              then and_then (stringify_block h val1 spaces)
                     (\<lambda>block. Inr (acc @ entry_line spaces ''- '' key block))
              else Inr (acc @ entry_line spaces ''- '' key (template (stringify h val1))))
             (\<lambda>acc.
                if typeof_object val2 \<and> val2 \<noteq> Some JNull
                then and_then (stringify_block h val2 spaces)
                       (\<lambda>block. Inr (acc @ entry_line spaces ''+ '' key block))
                else Inr (acc @ entry_line spaces ''+ '' key (template (stringify h val2)))))
      else
        (if typeof_object val1 \<and> val1 \<noteq> Some JNull \<and> \<not> isArray val1
         then and_then (recurse val1 val2 currentPath (indent + 1))
                (\<lambda>inner. Inr (acc @ block_open spaces key @ inner @ block_close spaces))
         else Inr (acc @ entry_line spaces ''  '' key (template (stringify h val1)))))"

lemma diff_key_cong [fundef_cong]:
  assumes "\<And>v1 v2 p i. v1 = optional_get h obj1 key \<Longrightarrow> typeof_object v1 \<Longrightarrow> v1 \<noteq> Some JNull
             \<Longrightarrow> r v1 v2 p i = r' v1 v2 p i"
  shows "diff_key h r obj1 obj2 path indent acc key = diff_key h r' obj1 obj2 path indent acc key"
  using assms by (simp add: diff_key_def Let_def)

definition measure_of :: "'n json option \<Rightarrow> nat" where
  "measure_of v = (case v of None \<Rightarrow> 0 | Some x \<Rightarrow> size x)"

lemma optional_get_smaller:
  assumes "typeof_object (optional_get h v key)" and "optional_get h v key \<noteq> Some JNull"
  shows "measure_of (optional_get h v key) < measure_of v"
proof (cases v)
  case None
  with assms show ?thesis by simp
next
  case (Some x)
  show ?thesis
  proof (cases x)
    case (JObj kvs)
    with assms Some obtain y where "map_of kvs key = Some y"
      by (cases "map_of kvs key") auto
    with Some JObj show ?thesis
      using size_map_of_JObj [of kvs key y] by (simp add: measure_of_def)
  next
    case (JArr xs)
    with assms Some show ?thesis
      using size_nth_elem [of "parseInt key" xs]
      by (auto simp: measure_of_def split: if_splits)
  qed (use assms Some in \<open>auto split: if_splits\<close>)
qed

function generateDiff ::
  "'n host \<Rightarrow> 'n json option \<Rightarrow> 'n json option \<Rightarrow> string \<Rightarrow> nat \<Rightarrow> js_error + string" where
  "generateDiff h obj1 obj2 path indent =
     (let keys = remdups (keys_or_empty h obj1 @ keys_or_empty h obj2);
          sortedKeys = sort keys
      in forEach
           (\<lambda>acc key.
              diff_key h (\<lambda>val1 val2 currentPath indent. generateDiff h val1 val2 currentPath indent)
                obj1 obj2 path indent acc key)
           sortedKeys [])"
  by pat_completeness auto
termination
  apply (relation "measure (\<lambda>(h, obj1, obj2, path, indent). measure_of obj1)")
   apply simp
  apply (simp only: in_measure prod.case)
  apply hypsubst
  apply (rule optional_get_smaller)
   apply assumption
  apply assumption
  done

declare generateDiff.simps [simp del]

record JSONComparison =
  diff :: string
  hasDifferences :: bool

definition compareJSON :: "'n host \<Rightarrow> string \<Rightarrow> string \<Rightarrow> js_error + JSONComparison" where
  "compareJSON h json1 json2 =
     try_catch
       (and_then (JSON_parse h json1)
          (\<lambda>obj1. and_then (JSON_parse h json2)
             (\<lambda>obj2. and_then (generateDiff h (Some obj1) (Some obj2) [] 0)
                (\<lambda>d. Inr \<lparr>diff = d,
                           hasDifferences = (string_includes d ''+ '' \<or> string_includes d ''- '')\<rparr>))))
       (\<lambda>err. Inl (Error ''Invalid JSON format in one or both inputs''))"


section \<open>validateSchema\<close>

text \<open>
  The name \<open>actualType\<close> of \<open>validateAgainstSchema\<close>:
  \<open>Array.isArray(data) ? 'array' : data === null ? 'null' : typeof data\<close>.
\<close>

fun actualType :: "'n json \<Rightarrow> string" where
  "actualType (JArr xs) = ''array''"
| "actualType JNull = ''null''"
| "actualType (JBool b) = ''boolean''"
| "actualType (JNum n) = ''number''"
| "actualType (JStr s) = ''string''"
| "actualType (JObj kvs) = ''object''"

text \<open>
  The conversions of ECMAScript that the messages and the comparisons of the schema
  validator apply to a JSON value: \<open>ToString\<close> (a template literal, a property key) and
  \<open>ToNumber\<close> (an operand of \<open><\<close> or \<open>>\<close> beside a number; \<open>None\<close> is \<open>NaN\<close>, which
  compares false).
\<close>

fun ToString :: "'n host \<Rightarrow> 'n json \<Rightarrow> string" where
  "ToString h JNull = ''null''"
| "ToString h (JBool b) = (if b then ''true'' else ''false'')"
| "ToString h (JNum n) = number_text h n"
| "ToString h (JStr s) = s"
| "ToString h (JArr xs) = join '','' (map (\<lambda>x. if x = JNull then [] else ToString h x) xs)"
| "ToString h (JObj kvs) = ''[object Object]''"

definition template_value :: "'n host \<Rightarrow> 'n json option \<Rightarrow> string" where
  "template_value h v = (case v of None \<Rightarrow> ''undefined'' | Some x \<Rightarrow> ToString h x)"

fun ToNumber :: "'n host \<Rightarrow> 'n json \<Rightarrow> 'n option" where
  "ToNumber h JNull = Some (number_of_nat h 0)"
| "ToNumber h (JBool b) = Some (number_of_nat h (if b then 1 else 0))"
| "ToNumber h (JNum n) = Some n"
| "ToNumber h (JStr s) = string_to_number h s"
| "ToNumber h v = string_to_number h (ToString h v)"

definition less_than :: "'n host \<Rightarrow> 'n \<Rightarrow> 'n json \<Rightarrow> bool" where
  "less_than h x y = (case ToNumber h y of None \<Rightarrow> False | Some n \<Rightarrow> number_less h x n)"

definition greater_than :: "'n host \<Rightarrow> 'n \<Rightarrow> 'n json \<Rightarrow> bool" where
  "greater_than h x y = (case ToNumber h y of None \<Rightarrow> False | Some n \<Rightarrow> number_less h n x)"

text \<open>
  \<open>xs.includes(v)\<close> on values of two different documents: a primitive is found by its
  value, an array or an object never (it would have to be the same object).
\<close>

fun is_primitive :: "'n json \<Rightarrow> bool" where
  "is_primitive (JArr xs) = False"
| "is_primitive (JObj kvs) = False"
| "is_primitive v = True"

definition array_includes :: "'n json list \<Rightarrow> 'n json \<Rightarrow> bool" where
  "array_includes xs v = (is_primitive v \<and> v \<in> set xs)"

text \<open>
  The checks of \<open>validateAgainstSchema\<close> that do not recurse, in the order of the source:
  \<open>required\<close> (its \<open>forEach\<close> exists on arrays only), \<open>enum\<close>, \<open>minimum\<close> and \<open>maximum\<close>,
  and the two pairs of bounds on a length.
\<close>

definition check_required ::
  "'n host \<Rightarrow> 'n json \<Rightarrow> 'n json option \<Rightarrow> string \<Rightarrow> string list \<Rightarrow> js_error + string list" where
  "check_required h data required path errors =
     (if truthy h required \<and> actualType data = ''object''
      then (case required of
              Some (JArr ks) \<Rightarrow>
                Inr (fold (\<lambda>key errors.
                            if get_property h data (ToString h key) = None
                            then errors @ [path @ ''.'' @ ToString h key
                                             @ '': Required property missing'']
                            else errors)
                       ks errors)
            | _ \<Rightarrow> Inl (TypeError ''schema.required.forEach is not a function''))
      else Inr errors)"

definition check_enum ::
  "'n host \<Rightarrow> 'n json \<Rightarrow> 'n json option \<Rightarrow> string \<Rightarrow> string list \<Rightarrow> string list" where
  "check_enum h data enum path errors =
     (case enum of
        Some (JArr es) \<Rightarrow>
          (if \<not> array_includes es data
           then errors @ [path @ '': Value must be one of '' @ JSON_stringify h (JArr es) 0]
           else errors)
      | _ \<Rightarrow> errors)"

definition check_number ::
  "'n host \<Rightarrow> 'n json \<Rightarrow> 'n json option \<Rightarrow> 'n json option \<Rightarrow> string \<Rightarrow> string list
     \<Rightarrow> string list" where
  "check_number h data minimum maximum path errors =
     (case data of
        JNum d \<Rightarrow>
          (let errors =
                 (case minimum of
                    Some m \<Rightarrow> (if less_than h d m
                               then errors @ [path @ '': Value must be >= '' @ ToString h m]
                               else errors)
                  | None \<Rightarrow> errors)
           in (case maximum of
                 Some m \<Rightarrow> (if greater_than h d m
                            then errors @ [path @ '': Value must be <= '' @ ToString h m]
                            else errors)
               | None \<Rightarrow> errors))
      | _ \<Rightarrow> errors)"

definition check_length ::
  "'n host \<Rightarrow> bool \<Rightarrow> nat \<Rightarrow> string \<Rightarrow> string \<Rightarrow> 'n json option \<Rightarrow> 'n json option \<Rightarrow> string
     \<Rightarrow> string list \<Rightarrow> string list" where
  "check_length h applies len noun unit lower upper path errors =
     (if applies
      then (let errors =
                  (case lower of
                     Some m \<Rightarrow> (if less_than h (number_of_nat h len) m
                                then errors @ [path @ '': '' @ noun @ '' >= '' @ ToString h m @ unit]
                                else errors)
                   | None \<Rightarrow> errors)
            in (case upper of
                  Some m \<Rightarrow> (if greater_than h (number_of_nat h len) m
                             then errors @ [path @ '': '' @ noun @ '' <= '' @ ToString h m @ unit]
                             else errors)
                | None \<Rightarrow> errors))
      else errors)"

lemma get_property_smaller:
  "get_property h v k = Some p \<Longrightarrow> k \<noteq> ''length'' \<Longrightarrow> \<not> canonical_numeric k \<Longrightarrow> size p < size v"
  by (cases v) (auto simp: size_map_of_JObj [simplified] split: if_splits)

lemma Object_entries_size:
  "(k, v) \<in> set (Object_entries p) \<Longrightarrow> size v \<le> size p"
proof (cases p)
  case (JArr xs)
  assume "(k, v) \<in> set (Object_entries p)"
  with JArr have "v \<in> set xs" by (auto dest: set_zip_rightD)
  then obtain i where "i < length xs" "xs ! i = v" by (auto simp: in_set_conv_nth)
  with JArr show ?thesis using size_nth_elem [of i xs] by auto
next
  case (JObj kvs)
  assume "(k, v) \<in> set (Object_entries p)"
  with JObj have "(k, v) \<in> set kvs" by simp
  then have "size v < size (JObj kvs)"
    by (induction kvs) auto
  with JObj show ?thesis by simp
qed (auto dest!: set_zip_rightD)

lemma not_numeric_keywords:
  "\<not> canonical_numeric ''properties''" "\<not> canonical_numeric ''items''"
  by (simp_all add: canonical_numeric_def is_digit_def)

lemma read_property_smaller:
  "read_property h schema k = Inr (Some p) \<Longrightarrow> k \<noteq> ''length'' \<Longrightarrow> \<not> canonical_numeric k
     \<Longrightarrow> size p < size schema"
  by (auto simp: read_property_def get_property_smaller split: if_splits)

lemma entry_schema_smaller:
  "read_property h schema k = Inr (Some p) \<Longrightarrow> e \<in> set (Object_entries p)
     \<Longrightarrow> k \<noteq> ''length'' \<Longrightarrow> \<not> canonical_numeric k \<Longrightarrow> size (snd e) < size schema"
  using Object_entries_size [of "fst e" "snd e" p] read_property_smaller [of h schema k p]
  by simp

text \<open>
  \<open>validateAgainstSchema\<close>; the list \<open>errors\<close> is the array it pushes to. The first check
  returns on a type mismatch; the checks of \<open>properties\<close> and \<open>items\<close> recurse.
\<close>

function validateAgainstSchema ::
  "'n host \<Rightarrow> 'n json \<Rightarrow> 'n json \<Rightarrow> string \<Rightarrow> string list \<Rightarrow> js_error + string list" where
  "validateAgainstSchema h data schema path errors =
     and_then (read_property h schema ''type'')
       (\<lambda>type.
          if truthy h type \<and> type \<noteq> Some (JStr (actualType data))
          then Inr (errors @ [path @ '': Expected type '' @ template_value h type
                                @ '', got '' @ actualType data])
          else
            and_then (read_property h schema ''properties'')
              (\<lambda>properties.
                 and_then
                   (case properties of
                      None \<Rightarrow> Inr errors
                    | Some props \<Rightarrow>
                        (if truthy h properties \<and> actualType data = ''object''
                         then forEach
                                (\<lambda>errors entry.
                                   let key = fst entry; propSchema = snd entry;
                                       newPath = (if path \<noteq> [] then path @ ''.'' @ key else key)
                                   in (case get_property h data key of
                                         Some v \<Rightarrow> validateAgainstSchema h v propSchema newPath errors
                                       | None \<Rightarrow>
                                           and_then (read_property h propSchema ''required'')
                                             (\<lambda>required.
                                                if truthy h required
                                                then Inr (errors @ [newPath @ '': Required property missing''])
                                                else Inr errors)))
                                (Object_entries props) errors
                         else Inr errors))
                   (\<lambda>errors.
                      and_then (read_property h schema ''items'')
                        (\<lambda>items.
                           and_then
                             (case items of
                                None \<Rightarrow> Inr errors
                              | Some itemSchema \<Rightarrow>
                                  (case data of
                                     JArr xs \<Rightarrow>
                                       (if truthy h items
                                        then forEach
                                               (\<lambda>errors entry.
                                                  validateAgainstSchema h (snd entry) itemSchema
                                                    (path @ ''['' @ fst entry @ '']'') errors)
                                               (Object_entries (JArr xs)) errors
                                        else Inr errors)
                                   | _ \<Rightarrow> Inr errors))
                             (\<lambda>errors.
                                and_then (read_property h schema ''required'')
                                  (\<lambda>required.
                                     and_then (check_required h data required path errors)
                                       (\<lambda>errors.
          and_then (read_property h schema ''enum'') (\<lambda>enum.
          and_then (read_property h schema ''minimum'') (\<lambda>minimum.
          and_then (read_property h schema ''maximum'') (\<lambda>maximum.
          and_then (read_property h schema ''minLength'') (\<lambda>minLength.
          and_then (read_property h schema ''maxLength'') (\<lambda>maxLength.
          and_then (read_property h schema ''minItems'') (\<lambda>minItems.
          and_then (read_property h schema ''maxItems'') (\<lambda>maxItems.
            Inr (check_length h (actualType data = ''array'')
                   (case data of JArr xs \<Rightarrow> length xs | _ \<Rightarrow> 0)
                   ''Array must have'' '' items'' minItems maxItems path
                  (check_length h (actualType data = ''string'')
                     (case data of JStr s \<Rightarrow> length s | _ \<Rightarrow> 0)
                     ''String must be'' '' characters'' minLength maxLength path
                    (check_number h data minimum maximum path
                      (check_enum h data enum path errors))))))))))))))))))"
  by pat_completeness auto
termination
  apply (relation "measure (\<lambda>(h, data, schema, path, errors). size schema)")
    apply simp
   apply (simp only: in_measure prod.case)
   apply (rule entry_schema_smaller, assumption, assumption)
    apply simp
   apply (rule not_numeric_keywords)
  apply (simp only: in_measure prod.case)
  apply hypsubst_thin
  apply (erule read_property_smaller)
   apply simp
  apply (rule not_numeric_keywords)
  done

declare validateAgainstSchema.simps [simp del]

record SchemaValidation =
  schema_valid :: bool
  schema_errors :: "string list"

definition validateSchema :: "'n host \<Rightarrow> string \<Rightarrow> string \<Rightarrow> js_error + SchemaValidation" where
  "validateSchema h jsonString schemaString =
     try_catch
       (and_then (JSON_parse h jsonString)
          (\<lambda>json. and_then (JSON_parse h schemaString)
             (\<lambda>schema. and_then (validateAgainstSchema h json schema [] [])
                (\<lambda>errors. Inr \<lparr>schema_valid = (length errors = 0), schema_errors = errors\<rparr>))))
       (\<lambda>err. Inr \<lparr>schema_valid = False, schema_errors = [''Invalid JSON or Schema format'']\<rparr>)"


section \<open>Notions used to state the properties\<close>

text \<open>
  A scalar without keys: \<open>null\<close>, a boolean, a number or the empty string. A string that
  is not empty has its character positions as keys.
\<close>

fun keyless_scalar :: "'n json \<Rightarrow> bool" where
  "keyless_scalar JNull = True"
| "keyless_scalar (JBool b) = True"
| "keyless_scalar (JNum n) = True"
| "keyless_scalar (JStr s) = (s = [])"
| "keyless_scalar v = False"


text \<open>An array, or an object with at least one key.\<close>

fun composite_with_members :: "'n json \<Rightarrow> bool" where
  "composite_with_members (JArr xs) = True"
| "composite_with_members (JObj kvs) = (kvs \<noteq> [])"
| "composite_with_members v = False"



text \<open>
  A host on which the definitions are evaluated. Its numbers are the integers, printed in
  decimal. Its \<open>JSON.parse\<close> is the table \<open>sample_texts\<close>: for each text used in an example
  below, the value that \<open>JSON.parse\<close> returns or the \<open>SyntaxError\<close> that it throws (with the
  message of V8); any other text is rejected.
\<close>

definition show_int :: "int \<Rightarrow> string" where
  "show_int i = (if i < 0 then ''-'' @ show_nat (nat (- i)) else show_nat (nat i))"

definition digits_to_number :: "string \<Rightarrow> int option" where
  "digits_to_number s =
     (if s \<noteq> [] \<and> list_all is_digit s then Some (int (parseInt s)) else None)"

definition sample_texts :: "(string \<times> (js_error + int json)) list" where
  \<open>sample_texts =
     [(''{"users":[{"name":"Ann"},{"name":"Bo"}]}'',
         Inr (JObj [(''users'', JArr [JObj [(''name'', JStr ''Ann'')],
                                      JObj [(''name'', JStr ''Bo'')]])])),
      (''[{"b":1,"a":2}]'', Inr (JArr [JObj [(''b'', JNum 1), (''a'', JNum 2)]])),
      (''{"b":1,"a":2}'', Inr (JObj [(''b'', JNum 1), (''a'', JNum 2)])),
      (''{"a":"+ "}'', Inr (JObj [(''a'', JStr ''+ '')])),
      (''{"a":[1]}'', Inr (JObj [(''a'', JArr [JNum 1])])),
      (''{"a":1}'', Inr (JObj [(''a'', JNum 1)])),
      (''{}'', Inr (JObj [])),
      (''1'', Inr (JNum 1)),
      (''2'', Inr (JNum 2)),
      (''"a"'', Inr (JStr ''a'')),
      (''"b"'', Inr (JStr ''b'')),
      (''not json'', Inl (SyntaxError ''Unexpected token o in JSON at position 1'')),
      (''{\<newline>  "a": }'',
         Inl (SyntaxError ''Unexpected token } in JSON at position 9''))]\<close>

definition sample_host :: "int host" where
  "sample_host =
     \<lparr>JSON_parse = (\<lambda>text. case map_of sample_texts text of
                               Some r \<Rightarrow> r
                             | None \<Rightarrow> Inl (SyntaxError ''Unexpected end of JSON input'')),
      number_text = show_int,
      number_finite = (\<lambda>n. True),
      number_of_nat = int,
      number_truthy = (\<lambda>n. n \<noteq> 0),
      number_less = (\<lambda>a b. a < b),
      string_to_number = digits_to_number\<rparr>"




section \<open>Auxiliary facts\<close>

subsection \<open>Splitting a text into lines\<close>







subsection \<open>The bracket pattern of a query\<close>

lemma not_digit_chars: "\<not> is_digit CHR ''[''" "\<not> is_digit CHR ''*''"
  by (simp_all add: is_digit_def less_eq_char_def)

lemma bracket_suffix_digits:
  "ds \<noteq> [] \<Longrightarrow> list_all is_digit ds \<Longrightarrow> bracket_suffix (CHR ''['' # ds @ '']'') = Some ds"
  by (simp add: bracket_suffix_def butlast_append)

lemma bracket_suffix_inner:
  assumes "ds \<noteq> []"
  shows "bracket_suffix (c # p @ CHR ''['' # ds @ '']'') = None"
proof -
  have b: "butlast (p @ CHR ''['' # ds @ '']'') = p @ CHR ''['' # ds"
    by (simp add: butlast_append)
  have "p @ CHR ''['' # ds \<noteq> ''*''" using assms by (cases p; cases ds) auto
  moreover have "\<not> list_all is_digit (p @ CHR ''['' # ds)"
    by (simp add: not_digit_chars)
  ultimately show ?thesis
    by (simp add: bracket_suffix_def b)
qed

lemma arrayMatch_from_bracket:
  assumes "\<forall>c \<in> set p. \<not> line_terminator c" and "ds \<noteq> []" and "list_all is_digit ds"
    and "acc @ p \<noteq> []"
  shows "arrayMatch_from acc (p @ CHR ''['' # ds @ '']'') = Some (acc @ p, ds)"
  using assms
proof (induction p arbitrary: acc)
  case Nil
  then show ?case
    using bracket_suffix_digits [of ds] by simp
next
  case (Cons c p)
  have "bracket_suffix (c # p @ CHR ''['' # ds @ '']'') = None"
    using bracket_suffix_inner [OF Cons.prems(2)] .
  moreover have "arrayMatch_from (acc @ [c]) (p @ CHR ''['' # ds @ '']'')
                   = Some ((acc @ [c]) @ p, ds)"
    using Cons.prems by (intro Cons.IH) auto
  ultimately show ?case using Cons.prems(1) by auto
qed

lemma arrayMatch_bracket:
  assumes "p \<noteq> []" and "\<forall>c \<in> set p. \<not> line_terminator c"
    and "ds \<noteq> []" and "list_all is_digit ds"
  shows "arrayMatch (p @ ''['' @ ds @ '']'') = Some (p, ds)"
  using arrayMatch_from_bracket [of p ds "[]"] assms by (simp add: arrayMatch_def)

lemma digits_not_star: "ds \<noteq> [] \<Longrightarrow> list_all is_digit ds \<Longrightarrow> ds \<noteq> ''*''"
  by (auto simp: not_digit_chars)

subsection \<open>The diff of a value with itself\<close>

lemma generateDiff_unfold:
  "generateDiff h obj1 obj2 path indent =
     forEach (diff_key h (generateDiff h) obj1 obj2 path indent)
       (sort (remdups (keys_or_empty h obj1 @ keys_or_empty h obj2))) []"
  by (simp add: generateDiff.simps Let_def)

lemma keys_or_empty_Some: "keys_or_empty h (Some v) = Object_keys v"
  by (cases v) (auto simp: keys_or_empty_def)

lemma keyless_scalar_keys: "keyless_scalar v \<Longrightarrow> Object_keys v = []"
  by (cases v) auto




subsection \<open>Evaluation\<close>

lemma replicate_two: "replicate 2 x = [x, x]"
  by (simp add: numeral_2_eq_2)

lemmas sample_eval =
  replicate_two sample_host_def sample_texts_def show_int_def show_nat.simps digit_char_def
  JSON_stringify_def stringify_def template_def wrap_members_def QuoteJSONString_def
  newline_def hex_digit_def is_digit_def parseInt_def canonical_numeric_def is_array_index_def

lemmas query_eval =
  queryJSON_def evaluateJSONPath_def cleanQuery_def arrayMatch_def bracket_suffix_def
  line_terminator_def getValueAtPath_def Let_def

lemmas diff_eval =
  compareJSON_def generateDiff_unfold diff_key_def keys_or_empty_def stringify_block_def
  entry_line_def block_open_def block_close_def Let_def



subsection \<open>format without sorting\<close>

text \<open>
  On a text that parses, \<open>format\<close> without \<open>sortKeys\<close> is \<open>JSON.stringify\<close> of the parsed
  value with the given indentation: what parsing its output gives is up to the parser and
  the number printer of the host.
\<close>

lemma format_parsed:
  "JSON_parse h jsonString = Inr v \<Longrightarrow> \<not> opt_sortKeys options
     \<Longrightarrow> format h jsonString options = Inr (JSON_stringify h v (opt_indent options))"
  by (simp add: format_def)

text \<open>
  So parsing the output of \<open>format\<close> with \<open>indent: 2\<close> gives the parsed value back exactly
  when the parser of the host reads the serialization of that value back as the value.
\<close>

lemma format_parse_back_iff:
  assumes "JSON_parse h jsonString = Inr v"
  shows "(and_then (format h jsonString
                      \<lparr>opt_indent = 2, opt_sortKeys = False, opt_removeWhitespace = False\<rparr>)
            (JSON_parse h) = Inr v)
         = (JSON_parse h (JSON_stringify h v 2) = Inr v)"
  using assms by (simp add: format_def)

text \<open>
  A number that is not finite is printed as \<open>null\<close>: on every host that reads \<open>null\<close> as the
  value \<open>null\<close>, a text that parses to such a number comes back as \<open>null\<close>.
\<close>

lemma format_parse_back_non_finite:
  assumes "JSON_parse h jsonString = Inr (JNum n)" and "\<not> number_finite h n"
    and "JSON_parse h ''null'' = Inr JNull"
  shows "and_then (format h jsonString
                     \<lparr>opt_indent = 2, opt_sortKeys = False, opt_removeWhitespace = False\<rparr>)
           (JSON_parse h) = Inr JNull"
  using assms by (simp add: format_def JSON_stringify_def)

section \<open>Path queries: an index out of bounds (C1)\<close>

text \<open>
  Claim C1 says that a query \<open><path>[N]\<close> whose path resolves to an array, with \<open>N\<close> not
  below the length of the array, returns the empty sequence. It does not: on the document
  with the two users, where \<open>users\<close> resolves to an array of length 2, the query
  \<open>users[5]\<close> returns a sequence of one element, the \<open>undefined\<close> marker.
\<close>

theorem queryJSON_out_of_bounds_counterexample:
  \<open>getValueAtPath sample_host
      (JObj [(''users'', JArr [JObj [(''name'', JStr ''Ann'')], JObj [(''name'', JStr ''Bo'')]])])
      ''users''
     = Some (JArr [JObj [(''name'', JStr ''Ann'')], JObj [(''name'', JStr ''Bo'')]])
   \<and> queryJSON sample_host ''{"users":[{"name":"Ann"},{"name":"Bo"}]}'' ''users[5]'' = Inr [None]
   \<and> queryJSON sample_host ''{"users":[{"name":"Ann"},{"name":"Bo"}]}'' ''users[5]'' \<noteq> Inr []\<close>
  by (simp add: sample_eval query_eval)

text \<open>
  Claim C1 as the code has it: when the cleaned query is \<open><path>[N]\<close> (a path without line
  terminators, \<open>N\<close> decimal digits), the path resolves to an array and \<open>N\<close> is not below its
  length, the block for array access returns nothing and \<open>queryJSON\<close> returns the sequence
  of exactly one element that the last statement builds: the result of the plain dot
  traversal of the whole cleaned query, in which \<open>[N]\<close> is part of the last property name.
\<close>

theorem queryJSON_index_out_of_bounds:
  assumes "JSON_parse h jsonString = Inr doc"
    and "cleanQuery query = path @ ''['' @ digits @ '']''"
    and "path \<noteq> []" and "\<forall>c \<in> set path. \<not> line_terminator c"
    and "digits \<noteq> []" and "list_all is_digit digits"
    and "getValueAtPath h doc path = Some (JArr parent)"
    and "length parent \<le> parseInt digits"
  shows "queryJSON h jsonString query = Inr [getValueAtPath h doc (path @ ''['' @ digits @ '']'')]"
proof -
  have m: "arrayMatch (path @ ''['' @ digits @ '']'') = Some (path, digits)"
    using arrayMatch_bracket [OF assms(3,4,5,6)] .
  have "evaluateJSONPath h doc query = [getValueAtPath h doc (cleanQuery query)]"
    using m assms(2,7,8) digits_not_star [OF assms(5,6)]
    by (simp add: evaluateJSONPath_def Let_def)
  with assms(1,2) show ?thesis by (simp add: queryJSON_def)
qed

theorem queryJSON_index_out_of_bounds_witness:
  \<open>queryJSON sample_host ''{"users":[{"name":"Ann"},{"name":"Bo"}]}'' ''$.users[5]''
     = Inr [getValueAtPath sample_host
              (JObj [(''users'', JArr [JObj [(''name'', JStr ''Ann'')],
                                       JObj [(''name'', JStr ''Bo'')]])])
              ''users[5]'']\<close>
proof -
  let ?doc = "JObj [(''users'', JArr [JObj [(''name'', JStr ''Ann'')],
                                     JObj [(''name'', JStr ''Bo'')]])] :: int json"
  have 1: \<open>JSON_parse sample_host ''{"users":[{"name":"Ann"},{"name":"Bo"}]}'' = Inr ?doc\<close>
    by (simp add: sample_eval)
  have 2: "cleanQuery ''$.users[5]'' = ''users'' @ ''['' @ ''5'' @ '']''"
    by (simp add: cleanQuery_def)
  have 3: "''users'' \<noteq> []" by simp
  have 4: "\<forall>c \<in> set ''users''. \<not> line_terminator c" by (simp add: line_terminator_def)
  have 5: "''5'' \<noteq> []" by simp
  have 6: "list_all is_digit ''5''" by (simp add: is_digit_def)
  have 7: "getValueAtPath sample_host ?doc ''users''
             = Some (JArr [JObj [(''name'', JStr ''Ann'')], JObj [(''name'', JStr ''Bo'')]])"
    by (simp add: sample_eval query_eval)
  have 8: "length [JObj [(''name'', JStr ''Ann'')], JObj [(''name'', JStr ''Bo'')] :: int json]
             \<le> parseInt ''5''"
    by (simp add: parseInt_def)
  from queryJSON_index_out_of_bounds [OF 1 2 3 4 5 6 7 8] show ?thesis by simp
qed

section \<open>Sorting keys (C2)\<close>

text \<open>
  Called without \<open>this\<close>, \<open>sortKeys\<close> throws on every array and on every object that has a
  key. So \<open>format\<close> with \<open>sortKeys\<close> returns its input unchanged whenever the document is an
  array with such an element.
\<close>

lemma array_map_fails:
  "x \<in> set xs \<Longrightarrow> f x = Inl e \<Longrightarrow> \<exists>e'. array_map f xs = Inl e'"
  by (induction xs) (auto simp: and_then_def split: sum.splits)

lemma sortKeys_unbound_fails:
  assumes "composite_with_members v"
  shows "sortKeys False v = Inl (TypeError ''Cannot read properties of undefined'')"
proof (cases v)
  case (JObj kvs)
  with assms have "length (sort (map fst kvs)) \<noteq> 0" by simp
  then obtain k ks where "sort (map fst kvs) = k # ks"
    by (cases "sort (map fst kvs)") auto
  with JObj show ?thesis by simp
qed (use assms in auto)

lemma format_sortKeys_array_unchanged:
  assumes "JSON_parse h jsonString = Inr (JArr xs)" and "x \<in> set xs"
    and "composite_with_members x" and "opt_sortKeys options"
  shows "format h jsonString options = Inr jsonString"
proof -
  have "sortKeys False x = Inl (TypeError ''Cannot read properties of undefined'')"
    using assms(3) by (rule sortKeys_unbound_fails)
  with assms(2) obtain e where "array_map (\<lambda>x. sortKeys False x) xs = Inl e"
    using array_map_fails [of x xs "\<lambda>x. sortKeys False x"] by blast
  with assms(1,4) show ?thesis by (simp add: format_def)
qed

text \<open>
  Claim C2 says that \<open>format\<close> with \<open>sortKeys\<close> sorts the keys of every object, also of an
  object inside an array. The code sorts the object at the top (second conjunct) but not
  the object inside an array: there \<open>sortKeys\<close> runs without \<open>this\<close> and throws (first
  conjunct), \<open>format\<close> catches that, and the text comes back as it was, neither sorted nor
  indented (third conjunct; without \<open>sortKeys\<close> the same text is indented, fourth).
\<close>

theorem format_sortKeys_inside_array:
  \<open>sortKeys True (JArr [JObj [(''b'', JNum (1::int)), (''a'', JNum 2)]])
      = Inl (TypeError ''Cannot read properties of undefined'')
   \<and> format sample_host ''{"b":1,"a":2}''
        \<lparr>opt_indent = 2, opt_sortKeys = True, opt_removeWhitespace = False\<rparr>
      = Inr ''{\<newline>  "a": 2,\<newline>  "b": 1\<newline>}''
   \<and> format sample_host ''[{"b":1,"a":2}]''
        \<lparr>opt_indent = 2, opt_sortKeys = True, opt_removeWhitespace = False\<rparr>
      = Inr ''[{"b":1,"a":2}]''
   \<and> format sample_host ''[{"b":1,"a":2}]''
        \<lparr>opt_indent = 2, opt_sortKeys = False, opt_removeWhitespace = False\<rparr>
      = Inr ''[\<newline>  {\<newline>    "b": 1,\<newline>    "a": 2\<newline>  }\<newline>]''\<close>
  by (simp add: sample_eval format_def)

section \<open>The flag hasDifferences (C3)\<close>

text \<open>
  Claim C3 says that \<open>hasDifferences\<close> is true exactly when the diff has an added or a
  removed line. The code tests whether the text of the diff contains \<open>+\<close> or \<open>-\<close> followed
  by a blank anywhere: a document compared with itself, whose diff is one unchanged line,
  has the flag set when a string in it contains \<open>+\<close> and a blank (first conjunct); without
  those characters the flag is false (second conjunct).
\<close>

theorem compareJSON_identical_with_plus:
  \<open>compareJSON sample_host ''{"a":"+ "}'' ''{"a":"+ "}''
     = Inr \<lparr>diff = ''  "a": "+ "\<newline>'', hasDifferences = True\<rparr>
   \<and> compareJSON sample_host ''{"a":1}'' ''{"a":1}''
     = Inr \<lparr>diff = ''  "a": 1\<newline>'', hasDifferences = False\<rparr>\<close>
  by (simp add: sample_eval diff_eval)

section \<open>Equal values under one key (C4)\<close>





section \<open>The empty query (C5)\<close>

text \<open>
  The queries \<open>""\<close>, \<open>.\<close> and \<open>$.\<close> return the document. The query \<open>$\<close> returns what the
  property named \<open>$\<close> holds, which is never the document itself.
\<close>

lemma queryJSON_empty_query:
  assumes "JSON_parse h jsonString = Inr doc"
    and "query = [] \<or> query = ''.'' \<or> query = ''$.''"
  shows "queryJSON h jsonString query = Inr [Some doc]"
  using assms by (auto simp: queryJSON_def evaluateJSONPath_def cleanQuery_def)

lemma not_numeric_dollar: "\<not> canonical_numeric ''$''"
  by (simp add: canonical_numeric_def is_digit_def less_eq_char_def)

lemma queryJSON_dollar:
  assumes "JSON_parse h jsonString = Inr doc"
  shows "queryJSON h jsonString ''$''
           = Inr [if doc = JNull then None else get_property h doc ''$'']
         \<and> queryJSON h jsonString ''$'' \<noteq> Inr [Some doc]"
proof -
  have 1: "queryJSON h jsonString ''$''
             = Inr [if doc = JNull then None else get_property h doc ''$'']"
    using assms
    by (cases doc)
       (simp_all add: queryJSON_def evaluateJSONPath_def cleanQuery_def arrayMatch_def
          bracket_suffix_def line_terminator_def getValueAtPath_def is_digit_def
          not_numeric_dollar)
  have "get_property h doc ''$'' \<noteq> Some doc"
    using get_property_smaller [of h doc "''$''" doc] not_numeric_dollar by auto
  with 1 show ?thesis by auto
qed

text \<open>
  Claim C5 says that each of the queries \<open>""\<close>, \<open>.\<close>, \<open>$\<close> and \<open>$.\<close> returns the whole
  document as the one element of the result. The pattern of \<open>cleanQuery\<close> removes a dollar
  only when a dot follows it: the query \<open>$\<close> stays as it is, is read as the name of a
  property, and on a document without that property the result is the \<open>undefined\<close> marker
  (first conjunct). The other three queries return the document (the other conjuncts).
\<close>

theorem queryJSON_bare_dollar:
  \<open>queryJSON sample_host ''{"a":1}'' ''$'' = Inr [None]
   \<and> queryJSON sample_host ''{"a":1}'' ''$.'' = Inr [Some (JObj [(''a'', JNum 1)])]
   \<and> queryJSON sample_host ''{"a":1}'' ''.'' = Inr [Some (JObj [(''a'', JNum 1)])]
   \<and> queryJSON sample_host ''{"a":1}'' [] = Inr [Some (JObj [(''a'', JNum 1)])]\<close>
  by (simp add: sample_eval query_eval)

section \<open>process on a text that does not parse (C6)\<close>

text \<open>
  Claim C6: for every text that \<open>JSON.parse\<close> rejects, \<open>process\<close> returns a result whose
  fields \<open>formatted\<close> and \<open>minified\<close> are the text itself, whose validation has \<open>valid\<close> false
  (and carries the message of the parser), and whose statistics are zero except \<open>size\<close>
  and \<open>formattedSize\<close>, both the length of the text. This holds of \<open>process\<close> in both
  copies of the class.
\<close>

theorem process_invalid_input:
  assumes "JSON_parse h jsonString = Inl err"
  shows "\<exists>v. validate h jsonString = Inr v \<and> \<not> valid v \<and> error v = Some (message err) \<and>
           process h jsonString options =
             Inr \<lparr>formatted = jsonString, minified = jsonString, validation = v,
                  stats = \<lparr>stats_size = length jsonString,
                            stats_formattedSize = length jsonString,
                            stats_objects = 0, stats_arrays = 0, stats_primitives = 0\<rparr>\<rparr> \<and>
           process_utils h jsonString options =
             Inr \<lparr>formatted = jsonString, minified = jsonString, validation = v,
                  stats = \<lparr>stats_size = length jsonString,
                            stats_formattedSize = length jsonString,
                            stats_objects = 0, stats_arrays = 0, stats_primitives = 0\<rparr>\<rparr>"
  using assms
  by (cases "match_position (message err)")
     (simp_all add: process_def process_utils_def validate_def Let_def)

theorem process_invalid_input_witness:
  \<open>process sample_host ''not json''
      \<lparr>opt_indent = 2, opt_sortKeys = False, opt_removeWhitespace = False\<rparr>
     = Inr \<lparr>formatted = ''not json'', minified = ''not json'',
            validation = \<lparr>valid = False,
                           error = Some ''Unexpected token o in JSON at position 1'',
                           line = Some 1, column = Some 2\<rparr>,
            stats = \<lparr>stats_size = 8, stats_formattedSize = 8,
                      stats_objects = 0, stats_arrays = 0, stats_primitives = 0\<rparr>\<rparr>
   \<and> process_utils sample_host ''not json''
      \<lparr>opt_indent = 2, opt_sortKeys = False, opt_removeWhitespace = False\<rparr>
     = Inr \<lparr>formatted = ''not json'', minified = ''not json'',
            validation = \<lparr>valid = False,
                           error = Some ''Unexpected token o in JSON at position 1'',
                           line = Some 1, column = Some 2\<rparr>,
            stats = \<lparr>stats_size = 8, stats_formattedSize = 8,
                      stats_objects = 0, stats_arrays = 0, stats_primitives = 0\<rparr>\<rparr>\<close>
proof -
  have p: "JSON_parse sample_host ''not json''
             = Inl (SyntaxError ''Unexpected token o in JSON at position 1'')"
    by (simp add: sample_eval)
  have v: "validate sample_host ''not json''
             = Inr \<lparr>valid = False, error = Some ''Unexpected token o in JSON at position 1'',
                    line = Some 1, column = Some 2\<rparr>"
    by (simp add: sample_eval validate_def after_prefix_def Let_def)
  from process_invalid_input [OF p] v show ?thesis by auto
qed

section \<open>validate (C7)\<close>



section \<open>validateSchema (C8)\<close>

text \<open>
  Claim C8: \<open>validateSchema\<close> fails closed. For every pair of texts it returns a result and
  never throws; when the data text or the schema text does not parse, the result is
  \<open>valid: false\<close> with the one message \<open>Invalid JSON or Schema format\<close>.
\<close>

theorem validateSchema_fails_closed:
  "(\<exists>r. validateSchema h jsonString schemaString = Inr r) \<and>
   ((\<exists>e. JSON_parse h jsonString = Inl e) \<or> (\<exists>e. JSON_parse h schemaString = Inl e) \<longrightarrow>
      validateSchema h jsonString schemaString =
        Inr \<lparr>schema_valid = False, schema_errors = [''Invalid JSON or Schema format'']\<rparr>)"
  by (cases "JSON_parse h jsonString"; cases "JSON_parse h schemaString")
     (auto simp: validateSchema_def try_catch_def and_then_def split: sum.splits)

theorem validateSchema_fails_closed_witness:
  \<open>validateSchema sample_host ''not json'' ''{}''
     = Inr \<lparr>schema_valid = False, schema_errors = [''Invalid JSON or Schema format'']\<rparr>
   \<and> validateSchema sample_host ''{"a":1}'' ''not json''
     = Inr \<lparr>schema_valid = False, schema_errors = [''Invalid JSON or Schema format'']\<rparr>\<close>
proof -
  have p: "\<exists>e. JSON_parse sample_host ''not json'' = Inl e"
    by (simp add: sample_eval)
  from p validateSchema_fails_closed [of sample_host "''not json''" "''{}''"]
       validateSchema_fails_closed [of sample_host \<open>''{"a":1}''\<close> "''not json''"]
  show ?thesis by blast
qed

section \<open>The round trip of format (C9)\<close>




section \<open>Scalars at the top of both documents (C10)\<close>

text \<open>
  Claim C10 says that two documents that are scalars, strings among them, always give the
  empty diff and \<open>hasDifferences\<close> false. A string that is not empty has keys, its character
  positions: the documents \<open>"a"\<close> and \<open>"b"\<close> give a removed and an added line for the key
  \<open>0\<close>, and the flag is true.
\<close>

theorem compareJSON_strings_counterexample:
  \<open>compareJSON sample_host ''"a"'' ''"b"''
     = Inr \<lparr>diff = ''- "0": "a"\<newline>+ "0": "b"\<newline>'', hasDifferences = True\<rparr>\<close>
  by (simp add: sample_eval diff_eval)

text \<open>
  Claim C10 as the code has it: when both documents parse to \<open>null\<close>, a boolean, a number
  or the empty string (also to two different ones, such as \<open>1\<close> and \<open>2\<close>), \<open>compareJSON\<close>
  returns the empty diff and \<open>hasDifferences\<close> false.
\<close>

theorem compareJSON_keyless_scalars:
  assumes "JSON_parse h json1 = Inr v1" and "JSON_parse h json2 = Inr v2"
    and "keyless_scalar v1" and "keyless_scalar v2"
  shows "compareJSON h json1 json2 = Inr \<lparr>diff = [], hasDifferences = False\<rparr>"
  using assms
  by (simp add: compareJSON_def generateDiff_unfold keys_or_empty_Some keyless_scalar_keys)

theorem compareJSON_keyless_scalars_witness:
  "compareJSON sample_host ''1'' ''2'' = Inr \<lparr>diff = [], hasDifferences = False\<rparr>"
proof -
  have 1: "JSON_parse sample_host ''1'' = Inr (JNum 1)" by (simp add: sample_eval)
  have 2: "JSON_parse sample_host ''2'' = Inr (JNum 2)" by (simp add: sample_eval)
  from compareJSON_keyless_scalars [OF 1 2] show ?thesis by simp
qed

end
